theory Spec2Isabelle
  imports Main "HOL-Library.Word"
begin

section \<open>JavaScript strings and byte arrays\<close>

text \<open>
  A JavaScript string is a sequence of 16-bit code units; a \<^verbatim>\<open>Uint8Array\<close> is a sequence
  of bytes. Property names and the ASCII literals of \<^verbatim>\<open>src/index.ts\<close> are written as HOL
  strings and injected with \<open>js\<close>.
\<close>

type_synonym code_unit = "16 word"
type_synonym js_string = "code_unit list"
type_synonym byte = "8 word"

definition js :: "string \<Rightarrow> js_string" where
  "js s = map of_char s"

definition hash :: code_unit where
  "hash = 0x23"

definition dollar :: code_unit where
  "dollar = 0x24"

definition ampersand :: code_unit where
  "ampersand = 0x26"

definition apostrophe :: code_unit where
  "apostrophe = 0x27"

definition backtick :: code_unit where
  "backtick = 0x60"

section \<open>The regular expression \<^verbatim>\<open>/^\#.*$/m\<close>\<close>

text \<open>
  ECMAScript \<^verbatim>\<open>LineTerminator\<close>: LF, CR, LINE SEPARATOR, PARAGRAPH SEPARATOR.
  Without the \<^verbatim>\<open>s\<close> flag, \<^verbatim>\<open>.\<close> matches every code unit but these.
\<close>

definition LineTerminator :: "code_unit \<Rightarrow> bool" where
  "LineTerminator c = (c = 0x000A \<or> c = 0x000D \<or> c = 0x2028 \<or> c = 0x2029)"

text \<open>
  The assertion \<^verbatim>\<open>^\<close> under the \<^verbatim>\<open>m\<close> flag, at the position that has \<open>pre\<close> to its
  left: start of input, or just behind a line terminator.
\<close>

definition assert_bol :: "js_string \<Rightarrow> bool" where
  "assert_bol pre = (pre = [] \<or> LineTerminator (last pre))"

text \<open>
  The assertion \<^verbatim>\<open>$\<close> under the \<^verbatim>\<open>m\<close> flag, at the position that has \<open>rest\<close> to its
  right: end of input, or just in front of a line terminator.
\<close>

definition assert_eol :: "js_string \<Rightarrow> bool" where
  "assert_eol rest = (rest = [] \<or> LineTerminator (hd rest))"

text \<open>
  The greedy \<^verbatim>\<open>.*\<close>: the longest run of code units that are not line terminators,
  and what is left of the input. \<^verbatim>\<open>$\<close> holds at the end of that run
  (lemma \<open>dot_star_eol\<close>), so the matcher never backtracks into it.
\<close>

definition dot_star :: "js_string \<Rightarrow> js_string \<times> js_string" where
  "dot_star rest =
     (takeWhile (\<lambda>c. \<not> LineTerminator c) rest, dropWhile (\<lambda>c. \<not> LineTerminator c) rest)"

text \<open>
  One attempt of the pattern at a fixed position: \<open>pre\<close> is the input to the left,
  \<open>rest\<close> the input from the position on. The result is the matched text and the input
  that follows it.
\<close>

definition heading_match_here :: "js_string \<Rightarrow> js_string \<Rightarrow> (js_string \<times> js_string) option" where
  "heading_match_here pre rest =
     (case rest of
        [] \<Rightarrow> None
      | c # cs \<Rightarrow>
          if assert_bol pre \<and> c = hash
          then (case dot_star cs of (line, post) \<Rightarrow> Some (c # line, post))
          else None)"

text \<open>
  \<^verbatim>\<open>RegExp.prototype.exec\<close> for a pattern that is neither global nor sticky: the
  pattern is tried at index 0, 1, 2, ... and the first index where it matches wins.
  The result is (input left of the match, matched text, input right of the match).
\<close>

fun heading_exec_from :: "js_string \<Rightarrow> js_string \<Rightarrow> (js_string \<times> js_string \<times> js_string) option" where
  "heading_exec_from pre [] = None"
| "heading_exec_from pre (c # cs) =
     (case heading_match_here pre (c # cs) of
        Some (matched, post) \<Rightarrow> Some (pre, matched, post)
      | None \<Rightarrow> heading_exec_from (pre @ [c]) cs)"

definition heading_exec :: "js_string \<Rightarrow> (js_string \<times> js_string \<times> js_string) option" where
  "heading_exec s = heading_exec_from [] s"

section \<open>\<^verbatim>\<open>String.prototype.replace\<close> with a string replacement\<close>

text \<open>
  ECMAScript \<^verbatim>\<open>GetSubstitution\<close> for a pattern with no capture groups: in the
  replacement text, \<^verbatim>\<open>$$\<close> stands for one dollar sign, \<^verbatim>\<open>$&\<close> for the matched text,
  \<^verbatim>\<open>$`\<close> for the input left of the match and \<^verbatim>\<open>$'\<close> for the input right of it. With no
  capture groups, \<^verbatim>\<open>$1\<close> ... \<^verbatim>\<open>$99\<close> and \<^verbatim>\<open>$<\<close> are copied as they are, like every
  other code unit.
\<close>

fun GetSubstitution :: "js_string \<Rightarrow> js_string \<Rightarrow> js_string \<Rightarrow> js_string \<Rightarrow> js_string" where
  "GetSubstitution matched pre post [] = []"
| "GetSubstitution matched pre post [c] = [c]"
| "GetSubstitution matched pre post (c # d # rest) =
     (if c = dollar \<and> d = dollar then dollar # GetSubstitution matched pre post rest
      else if c = dollar \<and> d = backtick then pre @ GetSubstitution matched pre post rest
      else if c = dollar \<and> d = ampersand then matched @ GetSubstitution matched pre post rest
      else if c = dollar \<and> d = apostrophe then post @ GetSubstitution matched pre post rest
      else c # GetSubstitution matched pre post (d # rest))"

text \<open>
  \<^verbatim>\<open>s.replace(/^\#.*$/m, replacement)\<close>: the first match only (the pattern is not
  global); without a match the string is returned as it is.
\<close>

definition replace_heading :: "js_string \<Rightarrow> js_string \<Rightarrow> js_string" where
  "replace_heading s replacement =
     (case heading_exec s of
        None \<Rightarrow> s
      | Some (pre, matched, post) \<Rightarrow>
          pre @ GetSubstitution matched pre post replacement @ post)"

section \<open>Values, parsed arguments and the option declarations\<close>

text \<open>
  The JavaScript values the script handles: booleans, strings, the byte arrays of a
  subprocess result, the object that \<^verbatim>\<open>moment()\<close> returns (a Moment holding an instant,
  in milliseconds since the epoch) and functions (by name).
\<close>

datatype js_value =
    VBoolean bool
  | VString js_string
  | VUint8Array "byte list"
  | VMoment int
  | VFunction string

datatype js_error =
    ReferenceError string
  | Thrown string

type_synonym js_object = "string \<rightharpoonup> js_value"

text \<open>
  \<^verbatim>\<open>argv\<close> as the handler reads it (\<^verbatim>\<open>ParsedArgs\<close>, lines 8-12, and the options of
  lines 73-100): the two positionals are strings, \<^verbatim>\<open>title\<close> is a string or undefined
  (\<open>None\<close>), the two flags are booleans, \<^verbatim>\<open>date\<close> is whatever the option puts there.
  \<open>extra\<close> holds every other own property of the object (the open-ended
  \<^verbatim>\<open>--name value\<close> pairs).
\<close>

record ParsedArgs =
  template :: js_string
  "note" :: js_string
  date :: js_value
  title :: "js_string option"
  removeTitle :: bool
  dry_run :: bool
  extra :: js_object

text \<open>The own properties of \<^verbatim>\<open>argv\<close>, as the spread \<^verbatim>\<open>...argv\<close> copies them.\<close>

definition argv_object :: "ParsedArgs \<Rightarrow> js_object" where
  "argv_object argv =
     extra argv
     ++ [''template'' \<mapsto> VString (template argv),
         ''note'' \<mapsto> VString (note argv),
         ''date'' \<mapsto> date argv,
         ''removeTitle'' \<mapsto> VBoolean (removeTitle argv),
         ''dry-run'' \<mapsto> VBoolean (dry_run argv)]
     ++ (case title argv of None \<Rightarrow> Map.empty | Some t \<Rightarrow> [''title'' \<mapsto> VString t])"

text \<open>
  \<^verbatim>\<open>moment()\<close> with no argument: a Moment object for the current instant \<open>now\<close>. It is
  an object, not a string; a string comes from calling \<^verbatim>\<open>.format(...)\<close> on it, as the
  help text of line 62 does.
\<close>

definition moment :: "int \<Rightarrow> js_value" where
  "moment now = VMoment now"

datatype option_type = string_type | boolean_type

record option_spec =
  opt_describe :: string
  opt_type :: option_type
  opt_default :: "js_value option"

text \<open>The four \<^verbatim>\<open>yargs.option\<close> declarations of lines 81-100.\<close>

definition date_option :: "int \<Rightarrow> option_spec" where
  "date_option now =
     \<lparr>opt_describe = ''Date variable. Default is today.'',
      opt_type = string_type,
      opt_default = Some (moment now)\<rparr>"

definition title_option :: option_spec where
  "title_option =
     \<lparr>opt_describe = ''Title variable. If present, the template name will be replaced with this value.'',
      opt_type = string_type,
      opt_default = None\<rparr>"

definition removeTitle_option :: option_spec where
  "removeTitle_option =
     \<lparr>opt_describe = ''Remove the title from the template.'',
      opt_type = boolean_type,
      opt_default = Some (VBoolean True)\<rparr>"

definition dry_run_option :: option_spec where
  "dry_run_option =
     \<lparr>opt_describe = ''Print the rendered template without creating a new note.'',
      opt_type = boolean_type,
      opt_default = Some (VBoolean False)\<rparr>"

text \<open>
  What yargs stores under an option's name: the value given on the command line, and
  otherwise the declared default as it is (a default is not converted to the declared
  type); with neither, the property is absent.
\<close>

definition option_value :: "option_spec \<Rightarrow> js_value option \<Rightarrow> js_value option" where
  "option_value spec supplied =
     (case supplied of Some v \<Rightarrow> Some v | None \<Rightarrow> opt_default spec)"

text \<open>\<^verbatim>\<open>argv.date\<close>, from the text given to \<^verbatim>\<open>--date\<close> (if any).\<close>

definition argv_date :: "int \<Rightarrow> js_string option \<Rightarrow> js_value option" where
  "argv_date now supplied = option_value (date_option now) (map_option VString supplied)"

definition is_string :: "js_value \<Rightarrow> bool" where
  "is_string v = (case v of VString s \<Rightarrow> True | _ \<Rightarrow> False)"

section \<open>The heading rewrite (lines 118-124)\<close>

text \<open>Truthiness of \<^verbatim>\<open>argv.title\<close>: undefined and the empty string are falsy.\<close>

definition truthy :: "js_string option \<Rightarrow> bool" where
  "truthy v = (case v of None \<Rightarrow> False | Some s \<Rightarrow> s \<noteq> [])"

text \<open>The template literal \<^verbatim>\<open>`# ${argv.title}`\<close>.\<close>

definition title_line :: "js_string option \<Rightarrow> js_string" where
  "title_line v = js ''# '' @ (case v of None \<Rightarrow> js ''undefined'' | Some s \<Rightarrow> s)"

definition rewrite_heading :: "ParsedArgs \<Rightarrow> js_string \<Rightarrow> js_string" where
  "rewrite_heading argv rendered =
     (if truthy (title argv) then replace_heading rendered (title_line (title argv))
      else if removeTitle argv then replace_heading rendered []
      else rendered)"

section \<open>The environment, the trace and the command handler\<close>

record CommandOutput =
  code :: int
  stdout :: "byte list"
  stderr :: "byte list"

record EtaConfig =
  useWith :: bool

text \<open>
  What the script calls and does not define: running a subprocess to completion
  (\<^verbatim>\<open>new Deno.Command(cmd, {args}).output()\<close>, which returns the exit code and the two
  captured byte arrays, or throws when the program cannot be spawned), the UTF-8
  decoder and encoder, and Eta's \<^verbatim>\<open>renderString\<close>, which returns the text or throws.
  \<open>Deno_stdout_write\<close> is the number of bytes of a buffer given to
  \<^verbatim>\<open>Deno.stdout.write\<close> that have reached standard output when the statement after the
  call runs: the call makes one write, which may take only part of the buffer, and
  resolves its promise later.
\<close>

record env =
  Deno_Command_output :: "js_string \<Rightarrow> js_string list \<Rightarrow> js_error + CommandOutput"
  TextDecoder_decode :: "byte list \<Rightarrow> js_string"
  TextEncoder_encode :: "js_string \<Rightarrow> byte list"
  Eta_renderString :: "EtaConfig \<Rightarrow> js_string \<Rightarrow> js_object \<Rightarrow> js_error + js_string"
  Deno_stdout_write :: "byte list \<Rightarrow> nat"

text \<open>
  The calls the handler makes, in order. \<open>console_error\<close> and \<open>console_log\<close> carry the
  value they are given; \<open>stdout_write\<close> records the call \<^verbatim>\<open>Deno.stdout.write(bytes)\<close>.
  The source does not await the promise that call returns and does not look at the byte
  count it resolves to: the next statement, \<^verbatim>\<open>Deno.exit(0)\<close>, ends the process.
\<close>

datatype event =
    Command_output js_string "js_string list"
  | renderString EtaConfig js_string js_object
  | console_error js_value
  | console_log js_value
  | stdout_write "byte list"

text \<open>
  How the handler ends: \<^verbatim>\<open>Deno.exit(n)\<close>, a normal return, or an exception that leaves
  the handler (the promise of the async handler is rejected).
\<close>

datatype outcome = Exit int | Returned | Threw js_error

record run =
  events :: "event list"
  outcome :: outcome

definition getTemplate :: "env \<Rightarrow> js_string \<Rightarrow> event \<times> (js_error + CommandOutput)" where
  "getTemplate e tmpl =
     (let args = [js ''show'', js ''--no-color'', js ''--print'', tmpl]
      in (Command_output (js ''nb'') args, Deno_Command_output e (js ''nb'') args))"

definition renderTemplate :: "env \<Rightarrow> js_string \<Rightarrow> js_object \<Rightarrow> event \<times> (js_error + js_string)" where
  "renderTemplate e tmpl vars =
     (let eta = \<lparr>useWith = True\<rparr>
      in (renderString eta tmpl vars, Eta_renderString e eta tmpl vars))"

definition createNote :: "env \<Rightarrow> js_string \<Rightarrow> js_string \<Rightarrow> event \<times> (js_error + CommandOutput)" where
  "createNote e filename content =
     (let args = [js ''add'', js ''--filename'', filename, js ''--content'', content]
      in (Command_output (js ''nb'') args, Deno_Command_output e (js ''nb'') args))"

text \<open>The names that the command declares (positionals and options, lines 70-100).\<close>

definition declared_names :: "string list" where
  "declared_names = [''template'', ''note'', ''date'', ''removeTitle'', ''dry-run'', ''title'']"

text \<open>The object \<^verbatim>\<open>{...argv, moment}\<close> of lines 113-116.\<close>

definition render_scope :: "ParsedArgs \<Rightarrow> js_object" where
  "render_scope argv = (argv_object argv)(''moment'' \<mapsto> VFunction ''moment'')"

text \<open>The command handler, lines 102-142.\<close>

definition handler :: "env \<Rightarrow> ParsedArgs \<Rightarrow> run" where
  "handler e argv =
     (case getTemplate e (template argv) of
        (ev1, Inl err) \<Rightarrow> \<lparr>events = [ev1], outcome = Threw err\<rparr>
      | (ev1, Inr tmpl) \<Rightarrow>
          if code tmpl \<noteq> 0
          then \<lparr>events = [ev1, console_error (VUint8Array (stderr tmpl))], outcome = Exit 1\<rparr>
          else
            (case renderTemplate e (TextDecoder_decode e (stdout tmpl)) (render_scope argv) of
               (ev2, Inl err) \<Rightarrow> \<lparr>events = [ev1, ev2], outcome = Threw err\<rparr>
             | (ev2, Inr rendered0) \<Rightarrow>
                 let rendered = rewrite_heading argv rendered0 in
                 if dry_run argv
                 then \<lparr>events = [ev1, ev2, stdout_write (TextEncoder_encode e rendered)],
                       outcome = Exit 0\<rparr>
                 else
                   (case createNote e (note argv) rendered of
                      (ev3, Inl err) \<Rightarrow> \<lparr>events = [ev1, ev2, ev3], outcome = Threw err\<rparr>
                    | (ev3, Inr nt) \<Rightarrow>
                        if code nt \<noteq> 0
                        then \<lparr>events = [ev1, ev2, ev3, console_error (VUint8Array (stderr nt))],
                              outcome = Exit 1\<rparr>
                        else \<lparr>events = [ev1, ev2, ev3, console_log (VString (js ''Note created.''))],
                              outcome = Returned\<rparr>)))"

text \<open>
  The process exit code: the argument of \<^verbatim>\<open>Deno.exit\<close>, 0 when the handler returns
  and the script runs to its end, and 1 when an exception leaves the handler (the
  rejection is not caught by the script, and the process ends with code 1).
\<close>

definition exit_code :: "outcome \<Rightarrow> int option" where
  "exit_code out = (case out of Exit n \<Rightarrow> Some n | Returned \<Rightarrow> Some 0 | Threw err \<Rightarrow> Some 1)"

text \<open>
  The bytes that have reached standard output through \<^verbatim>\<open>Deno.stdout.write\<close> when the
  handler ends: of each buffer, the part the single write has taken.
\<close>

definition written_by :: "env \<Rightarrow> event \<Rightarrow> byte list" where
  "written_by e ev =
     (case ev of stdout_write bs \<Rightarrow> take (Deno_stdout_write e bs) bs | _ \<Rightarrow> [])"

definition stdout_received :: "env \<Rightarrow> run \<Rightarrow> byte list" where
  "stdout_received e r = concat (map (written_by e) (events r))"

definition is_createNote :: "event \<Rightarrow> bool" where
  "is_createNote ev =
     (case ev of
        Command_output cmd args \<Rightarrow> cmd = js ''nb'' \<and> take 1 args = [js ''add'']
      | _ \<Rightarrow> False)"

definition is_getTemplate :: "event \<Rightarrow> bool" where
  "is_getTemplate ev =
     (case ev of
        Command_output cmd args \<Rightarrow> cmd = js ''nb'' \<and> take 1 args = [js ''show'']
      | _ \<Rightarrow> False)"

section \<open>What the pattern matches, stated on positions\<close>

text \<open>
  Position \<open>i\<close> of \<open>s\<close> starts a line (\<^verbatim>\<open>^\<close> holds there), and position \<open>i\<close> starts a
  line that begins with \<^verbatim>\<open>#\<close>.
\<close>

definition line_start :: "js_string \<Rightarrow> nat \<Rightarrow> bool" where
  "line_start s i = (i = 0 \<or> LineTerminator (s ! (i - 1)))"

definition heading_at :: "js_string \<Rightarrow> nat \<Rightarrow> bool" where
  "heading_at s i = (i < length s \<and> line_start s i \<and> s ! i = hash)"

definition no_heading_line :: "js_string \<Rightarrow> bool" where
  "no_heading_line s = (\<forall>i\<in>{..<length s}. \<not> heading_at s i)"

text \<open>
  \<open>s\<close> splits as \<open>p @ m @ q\<close> where \<open>m\<close> is the first line that begins with \<^verbatim>\<open>#\<close>: it
  starts at a line start with \<^verbatim>\<open>#\<close>, no earlier position does, it holds no line
  terminator, and it runs to the end of its line.
\<close>

definition first_heading :: "js_string \<Rightarrow> js_string \<Rightarrow> js_string \<Rightarrow> js_string \<Rightarrow> bool" where
  "first_heading s p m q =
     (s = p @ m @ q \<and> heading_at s (length p) \<and> (\<forall>i\<in>{..<length p}. \<not> heading_at s i)
      \<and> (\<forall>c\<in>set m. \<not> LineTerminator c) \<and> assert_eol q)"

section \<open>The template renderer, from the specification\<close>

text \<open>
  Modelled from the spec: the Template Renderer of section 4.2, that is the
  \<^verbatim>\<open>renderString\<close> of the Eta library, which \<^verbatim>\<open>src/index.ts\<close> imports and does not
  define. The spec's words: embedded expressions are evaluated in a "with"-style scope,
  so that a bare name resolves against the variable mapping; an output tag emits the
  value of its expression; a reference to an undefined variable fails with a rendering
  error, with no fallback to the empty string unless the template itself guards for it.
  The tag syntax is Eta's and is left to a tokenizer \<open>tokens\<close>; \<open>str\<close> turns a value
  into text.
\<close>

datatype eta_expr =
    Var string
  | Guarded string

datatype eta_token =
    Text js_string
  | Output eta_expr

definition eval_expr :: "bool \<Rightarrow> (js_value \<Rightarrow> js_string) \<Rightarrow> js_object \<Rightarrow> eta_expr \<Rightarrow> js_error + js_string" where
  "eval_expr with_scope str vars ex =
     (case ex of
        Var x \<Rightarrow>
          (case (if with_scope then vars x else None) of
             None \<Rightarrow> Inl (ReferenceError x)
           | Some v \<Rightarrow> Inr (str v))
      | Guarded x \<Rightarrow>
          (case (if with_scope then vars x else None) of
             None \<Rightarrow> Inr []
           | Some v \<Rightarrow> Inr (str v)))"

fun render_tokens :: "bool \<Rightarrow> (js_value \<Rightarrow> js_string) \<Rightarrow> js_object \<Rightarrow> eta_token list \<Rightarrow> js_error + js_string" where
  "render_tokens with_scope str vars [] = Inr []"
| "render_tokens with_scope str vars (Text t # ts) =
     (case render_tokens with_scope str vars ts of
        Inl err \<Rightarrow> Inl err
      | Inr r \<Rightarrow> Inr (t @ r))"
| "render_tokens with_scope str vars (Output ex # ts) =
     (case eval_expr with_scope str vars ex of
        Inl err \<Rightarrow> Inl err
      | Inr v \<Rightarrow>
          (case render_tokens with_scope str vars ts of
             Inl err \<Rightarrow> Inl err
           | Inr r \<Rightarrow> Inr (v @ r)))"

definition spec_renderString ::
  "(js_string \<Rightarrow> eta_token list) \<Rightarrow> (js_value \<Rightarrow> js_string) \<Rightarrow>
   EtaConfig \<Rightarrow> js_string \<Rightarrow> js_object \<Rightarrow> js_error + js_string" where
  "spec_renderString tokens str cfg tmpl vars =
     render_tokens (useWith cfg) str vars (tokens tmpl)"

section \<open>A small note store for concrete runs\<close>

text \<open>
  ASCII text as bytes and back (what the UTF-8 codec does on ASCII), and a note store
  that holds one note \<^verbatim>\<open>tpl\<close> and accepts one new filename \<^verbatim>\<open>new.md\<close>.
\<close>

definition bytes :: "string \<Rightarrow> byte list" where
  "bytes s = map of_char s"

definition ascii_decode :: "byte list \<Rightarrow> js_string" where
  "ascii_decode bs = map ucast bs"

definition ascii_encode :: "js_string \<Rightarrow> byte list" where
  "ascii_encode s = map ucast s"

definition example_nb :: "js_string \<Rightarrow> js_string list \<Rightarrow> js_error + CommandOutput" where
  "example_nb cmd args =
     (if args = [js ''show'', js ''--no-color'', js ''--print'', js ''tpl'']
      then Inr \<lparr>code = 0, stdout = bytes ''# Old Title\<newline>body'', stderr = []\<rparr>
      else if take 1 args = [js ''show'']
      then Inr \<lparr>code = 1, stdout = [], stderr = bytes ''Not found''\<rparr>
      else if take 3 args = [js ''add'', js ''--filename'', js ''new.md'']
      then Inr \<lparr>code = 0, stdout = bytes ''Added'', stderr = []\<rparr>
      else Inr \<lparr>code = 1, stdout = [], stderr = bytes ''Rejected''\<rparr>)"

text \<open>
  A renderer for templates without tags: the text comes back as it is. Standard output
  takes every buffer whole before the next statement runs.
\<close>

definition example_env :: env where
  "example_env =
     \<lparr>Deno_Command_output = example_nb,
      TextDecoder_decode = ascii_decode,
      TextEncoder_encode = ascii_encode,
      Eta_renderString = (\<lambda>cfg tmpl vars. Inr tmpl),
      Deno_stdout_write = length\<rparr>"

text \<open>
  The same, with a standard output (a pipe with a slow reader, say) that has taken two
  bytes of the buffer when the next statement runs.
\<close>

definition slow_stdout_env :: env where
  "slow_stdout_env = example_env\<lparr>Deno_stdout_write := (\<lambda>bs. 2)\<rparr>"

definition example_argv :: ParsedArgs where
  "example_argv =
     \<lparr>template = js ''tpl'', note = js ''new.md'', date = VString (js ''2024-01-01''),
      title = None, removeTitle = True, dry_run = False,
      extra = [''who'' \<mapsto> VString (js ''world'')]\<rparr>"

text \<open>
  A tokenizer for one template, \<^verbatim>\<open>Hello <%= name %>\<close>, and a stringification for string
  values, to run the renderer of the specification.
\<close>

definition example_tokens :: "js_string \<Rightarrow> eta_token list" where
  "example_tokens tmpl = [Text (js ''Hello ''), Output (Var ''name'')]"

definition example_str :: "js_value \<Rightarrow> js_string" where
  "example_str v = (case v of VString s \<Rightarrow> s | _ \<Rightarrow> [])"

section \<open>The match is the first line that begins with \<^verbatim>\<open>#\<close>\<close>

lemma dot_star_split: "dot_star cs = (line, post) \<Longrightarrow> cs = line @ post"
  by (auto simp: dot_star_def)

lemma dot_star_line: "dot_star cs = (line, post) \<Longrightarrow> c \<in> set line \<Longrightarrow> \<not> LineTerminator c"
  by (auto simp: dot_star_def dest: set_takeWhileD)

lemma dot_star_eol: "dot_star cs = (line, post) \<Longrightarrow> assert_eol post"
  using hd_dropWhile [of "\<lambda>c. \<not> LineTerminator c" cs]
  by (auto simp: dot_star_def assert_eol_def)

lemma hash_not_LineTerminator: "\<not> LineTerminator hash"
  by (simp add: LineTerminator_def hash_def)

lemma heading_at_here: "heading_at (pre @ c # cs) (length pre) = (assert_bol pre \<and> c = hash)"
  by (cases "pre = []") (auto simp: heading_at_def line_start_def assert_bol_def nth_append last_conv_nth)

lemma heading_match_here_None:
  "heading_match_here pre (c # cs) = None \<longleftrightarrow> \<not> heading_at (pre @ c # cs) (length pre)"
  by (auto simp: heading_match_here_def heading_at_here split: prod.splits)

lemma heading_match_here_Some:
  "heading_match_here pre (c # cs) = Some (m, q) \<Longrightarrow>
     heading_at (pre @ c # cs) (length pre) \<and> c # cs = m @ q
     \<and> (\<forall>x\<in>set m. \<not> LineTerminator x) \<and> assert_eol q"
  using dot_star_split [of cs] dot_star_line [of cs] dot_star_eol [of cs]
  by (auto simp: heading_match_here_def heading_at_here hash_not_LineTerminator
           split: prod.splits if_splits)

lemma heading_exec_from_None:
  "heading_exec_from pre s = None \<longleftrightarrow> (\<forall>i<length s. \<not> heading_at (pre @ s) (length pre + i))"
proof (induction s arbitrary: pre)
  case Nil
  then show ?case by simp
next
  case (Cons c cs)
  show ?case
  proof (cases "heading_match_here pre (c # cs)")
    case None
    then have here: "\<not> heading_at (pre @ c # cs) (length pre)"
      by (simp add: heading_match_here_None)
    have "heading_exec_from pre (c # cs) = None \<longleftrightarrow>
          (\<forall>i<length cs. \<not> heading_at (pre @ c # cs) (length pre + Suc i))"
      using None Cons.IH [of "pre @ [c]"] by simp
    also have "\<dots> \<longleftrightarrow> (\<forall>i<length (c # cs). \<not> heading_at (pre @ c # cs) (length pre + i))"
      using here by (auto simp: less_Suc_eq_0_disj)
    finally show ?thesis .
  next
    case (Some a)
    then have "heading_at (pre @ c # cs) (length pre)"
      using heading_match_here_None [of pre c cs] by simp
    then show ?thesis using Some by (auto split: prod.splits)
  qed
qed

lemma heading_exec_from_Some:
  "heading_exec_from pre s = Some (p, m, q) \<Longrightarrow>
     pre @ s = p @ m @ q \<and> length pre \<le> length p \<and> heading_at (pre @ s) (length p)
     \<and> (\<forall>i. length pre \<le> i \<and> i < length p \<longrightarrow> \<not> heading_at (pre @ s) i)
     \<and> (\<forall>x\<in>set m. \<not> LineTerminator x) \<and> assert_eol q"
proof (induction s arbitrary: pre)
  case Nil
  then show ?case by simp
next
  case (Cons c cs)
  show ?case
  proof (cases "heading_match_here pre (c # cs)")
    case None
    then have here: "\<not> heading_at (pre @ c # cs) (length pre)"
      by (simp add: heading_match_here_None)
    from None Cons.prems have rec: "heading_exec_from (pre @ [c]) cs = Some (p, m, q)"
      by simp
    note step = Cons.IH [OF rec, simplified]
    have ih1: "pre @ c # cs = p @ m @ q" using step by blast
    have ih2: "Suc (length pre) \<le> length p" using step by blast
    have ih3: "heading_at (pre @ c # cs) (length p)" using step by blast
    have ih4: "\<forall>i. Suc (length pre) \<le> i \<and> i < length p \<longrightarrow> \<not> heading_at (pre @ c # cs) i"
      using step by blast
    have ih5: "\<forall>x\<in>set m. \<not> LineTerminator x" using step by blast
    have ih6: "assert_eol q" using step by blast
    have "\<forall>i. length pre \<le> i \<and> i < length p \<longrightarrow> \<not> heading_at (pre @ c # cs) i"
    proof (intro allI impI)
      fix i assume "length pre \<le> i \<and> i < length p"
      then consider "i = length pre" | "Suc (length pre) \<le> i \<and> i < length p" by linarith
      then show "\<not> heading_at (pre @ c # cs) i"
        using here ih4 by cases auto
    qed
    with ih1 ih2 ih3 ih5 ih6 show ?thesis by (intro conjI) simp_all
  next
    case (Some a)
    obtain m' q' where a: "a = (m', q')" by (cases a)
    with Some Cons.prems have eq: "p = pre" "m = m'" "q = q'" by simp_all
    from Some a have hm: "heading_match_here pre (c # cs) = Some (m', q')" by simp
    note here = heading_match_here_Some [OF hm]
    have g1: "pre @ c # cs = pre @ m' @ q'" using here by simp
    have g2: "heading_at (pre @ c # cs) (length pre)" using here by blast
    have g3: "\<forall>x\<in>set m'. \<not> LineTerminator x" using here by blast
    have g4: "assert_eol q'" using here by blast
    show ?thesis unfolding eq using g1 g2 g3 g4 by (intro conjI) auto
  qed
qed

lemma no_heading_line_iff: "heading_exec s = None \<longleftrightarrow> no_heading_line s"
  using heading_exec_from_None [of "[]" s]
  by (simp add: heading_exec_def no_heading_line_def Ball_def)

lemma heading_exec_first_heading:
  assumes "heading_exec s = Some (p, m, q)"
  shows "first_heading s p m q"
proof -
  from assms have "heading_exec_from [] s = Some (p, m, q)"
    by (simp add: heading_exec_def)
  note f = heading_exec_from_Some [OF this, simplified]
  have "s = p @ m @ q" using f by blast
  moreover have "heading_at s (length p)" using f by blast
  moreover have "\<forall>i\<in>{..<length p}. \<not> heading_at s i" using f by auto
  moreover have "\<forall>c\<in>set m. \<not> LineTerminator c" using f by blast
  moreover have "assert_eol q" using f by blast
  ultimately show ?thesis unfolding first_heading_def by blast
qed

lemma takeWhile_run:
  "\<forall>x\<in>set m. P x \<Longrightarrow> q = [] \<or> \<not> P (hd q) \<Longrightarrow> takeWhile P (m @ q) = m"
  by (cases q) simp_all

lemma first_heading_unique:
  assumes a: "first_heading s p m q" and b: "first_heading s p' m' q'"
  shows "p' = p \<and> m' = m \<and> q' = q"
proof -
  from a b have s: "s = p @ m @ q" "s = p' @ m' @ q'"
    by (simp_all add: first_heading_def)
  have lp: "length p' = length p"
  proof (rule ccontr)
    assume "length p' \<noteq> length p"
    then consider "length p' < length p" | "length p < length p'" by linarith
    then show False
      using a b by cases (auto simp: first_heading_def)
  qed
  with s have p: "p' = p" by (metis append_eq_append_conv)
  with s have rest: "m @ q = m' @ q'" by simp
  have "takeWhile (\<lambda>c. \<not> LineTerminator c) (m @ q) = m"
    using a by (intro takeWhile_run) (auto simp: first_heading_def assert_eol_def)
  moreover have "takeWhile (\<lambda>c. \<not> LineTerminator c) (m' @ q') = m'"
    using b by (intro takeWhile_run) (auto simp: first_heading_def assert_eol_def)
  ultimately have m: "m' = m" using rest by simp
  with rest p show ?thesis by simp
qed

lemma first_heading_exec:
  assumes "first_heading s p m q"
  shows "heading_exec s = Some (p, m, q)"
proof (cases "heading_exec s")
  case None
  then have "no_heading_line s" by (simp add: no_heading_line_iff)
  moreover from assms have "heading_at s (length p)" "length p < length s"
    by (auto simp: first_heading_def heading_at_def)
  ultimately show ?thesis by (auto simp: no_heading_line_def)
next
  case (Some r)
  obtain p' m' q' where r: "r = (p', m', q')" by (cases r)
  with Some have "first_heading s p' m' q'" by (simp add: heading_exec_first_heading)
  with assms have "p' = p \<and> m' = m \<and> q' = q" by (rule first_heading_unique)
  with Some r show ?thesis by simp
qed

lemma heading_exec_iff: "heading_exec s = Some (p, m, q) \<longleftrightarrow> first_heading s p m q"
  using heading_exec_first_heading first_heading_exec by blast

section \<open>The replacement\<close>

text \<open>
  A replacement text without a dollar sign is inserted as it is. So a title without a
  dollar sign gives the heading line \<^verbatim>\<open># \<close> followed by the title, in place of the
  first line that begins with \<^verbatim>\<open>#\<close>, and nothing else changes.
\<close>

lemma GetSubstitution_no_dollar:
  "dollar \<notin> set r \<Longrightarrow> GetSubstitution m p q r = r"
  by (induction m p q r rule: GetSubstitution.induct) auto

lemma replace_heading_first:
  "first_heading s p m q \<Longrightarrow> replace_heading s r = p @ GetSubstitution m p q r @ q"
  by (simp add: replace_heading_def first_heading_exec)

lemma replace_heading_none: "no_heading_line s \<Longrightarrow> replace_heading s r = s"
  using no_heading_line_iff [of s] by (simp add: replace_heading_def)

lemma title_line_no_dollar: "dollar \<notin> set t \<Longrightarrow> dollar \<notin> set (title_line (Some t))"
  by (simp add: title_line_def js_def dollar_def)

lemma rewrite_heading_plain_title:
  assumes "title argv = Some t" "t \<noteq> []" "dollar \<notin> set t" "first_heading rendered p m q"
  shows "rewrite_heading argv rendered = p @ js ''# '' @ t @ q"
  using assms
  by (simp add: rewrite_heading_def truthy_def replace_heading_first
        GetSubstitution_no_dollar title_line_no_dollar)
     (simp add: title_line_def)

section \<open>The heading rewrite\<close>

text \<open>
  The title \<^verbatim>\<open>New\<close> on a text whose first line that begins with \<^verbatim>\<open>#\<close> is
  \<^verbatim>\<open># Old Title\<close>: that line becomes \<^verbatim>\<open># New\<close>, the later heading stays.
\<close>

lemma rewrite_heading_example_New:
  "rewrite_heading (example_argv\<lparr>title := Some (js ''New'')\<rparr>)
     (js ''intro\<newline># Old Title\<newline>body\<newline># Later'')
   = js ''intro\<newline># New\<newline>body\<newline># Later''"
  by code_simp

text \<open>
  Removal is not idempotent by itself: a second pass removes the next line that begins
  with \<^verbatim>\<open>#\<close>.
\<close>

lemma removal_twice_example:
  "rewrite_heading example_argv (js ''# A\<newline># B'') = js ''\<newline># B''
   \<and> rewrite_heading example_argv (js ''\<newline># B'') = js ''\<newline>''"
  by code_simp

text \<open>
  C3 (title replacement). The claim: for every rendered text and every supplied title,
  the first line that begins with \<^verbatim>\<open>#\<close> becomes \<^verbatim>\<open># \<close> followed by the title, and nothing
  else changes. The code hands \<^verbatim>\<open>`# ${argv.title}`\<close> to \<^verbatim>\<open>replace\<close> as a replacement
  pattern, so a title that holds \<^verbatim>\<open>$$\<close>, \<^verbatim>\<open>$&\<close>, \<^verbatim>\<open>$`\<close> or \<^verbatim>\<open>$'\<close> is not inserted as it
  is: the title \<^verbatim>\<open>Price in $$\<close> gives the line \<^verbatim>\<open># Price in $\<close>, and the title \<^verbatim>\<open>$&\<close>
  gives \<^verbatim>\<open># # Old Title\<close>. (For a title without a dollar sign the claim holds:
  \<open>rewrite_heading_plain_title\<close>.)
\<close>

theorem C3_title_with_dollar_pattern:
  "rewrite_heading (example_argv\<lparr>title := Some (js ''Price in $$'')\<rparr>) (js ''# Old Title\<newline>body'')
     = js ''# Price in $\<newline>body''
   \<and> rewrite_heading (example_argv\<lparr>title := Some (js ''$&'')\<rparr>) (js ''# Old Title\<newline>body'')
     = js ''# # Old Title\<newline>body''"
  by code_simp

text \<open>
  C4 (removal). With no title: when \<^verbatim>\<open>removeTitle\<close> is true, the first line that begins
  with \<^verbatim>\<open>#\<close> is replaced by the empty string, the text on both sides (line terminators
  included) staying as it is, and a text with no such line is unchanged; when
  \<^verbatim>\<open>removeTitle\<close> is false the text is returned unmodified. Without \<^verbatim>\<open>--removeTitle\<close>
  on the command line the flag is true, its declared default.
\<close>

theorem C4_remove_title:
  "title argv = None \<Longrightarrow>
     (removeTitle argv \<longrightarrow>
        (\<forall>p m q. first_heading rendered p m q \<longrightarrow> rewrite_heading argv rendered = p @ q)
        \<and> (no_heading_line rendered \<longrightarrow> rewrite_heading argv rendered = rendered))
     \<and> (\<not> removeTitle argv \<longrightarrow> rewrite_heading argv rendered = rendered)
     \<and> option_value removeTitle_option None = Some (VBoolean True)"
  by (simp add: rewrite_heading_def truthy_def replace_heading_first replace_heading_none
        option_value_def removeTitle_option_def)

theorem C4_remove_title_witness:
  "rewrite_heading example_argv (js ''intro\<newline># Old Title\<newline>body\<newline># Later'')
     = js ''intro\<newline>\<newline>body\<newline># Later''
   \<and> rewrite_heading example_argv (js ''no heading'') = js ''no heading''
   \<and> rewrite_heading (example_argv\<lparr>removeTitle := False\<rparr>) (js ''# Old Title'') = js ''# Old Title''"
proof -
  have t: "title example_argv = None" "removeTitle example_argv"
    by (simp_all add: example_argv_def)
  have "heading_exec (js ''intro\<newline># Old Title\<newline>body\<newline># Later'')
          = Some (js ''intro\<newline>'', js ''# Old Title'', js ''\<newline>body\<newline># Later'')"
    by code_simp
  then have f: "first_heading (js ''intro\<newline># Old Title\<newline>body\<newline># Later'')
             (js ''intro\<newline>'') (js ''# Old Title'') (js ''\<newline>body\<newline># Later'')"
    by (rule heading_exec_first_heading)
  have "heading_exec (js ''no heading'') = None"
    by code_simp
  then have n: "no_heading_line (js ''no heading'')"
    by (simp add: no_heading_line_iff)
  have a: "js ''intro\<newline>'' @ js ''\<newline>body\<newline># Later'' = js ''intro\<newline>\<newline>body\<newline># Later''"
    by (simp add: js_def)
  from C4_remove_title [of example_argv "js ''intro\<newline># Old Title\<newline>body\<newline># Later''"]
       C4_remove_title [of example_argv "js ''no heading''"]
       C4_remove_title [of "example_argv\<lparr>removeTitle := False\<rparr>" "js ''# Old Title''"]
       t f n a
  show ?thesis by simp
qed

text \<open>
  C7 (conditional idempotence of removal). With no title and \<^verbatim>\<open>removeTitle\<close> true: if
  the result of one removal has no line left that begins with \<^verbatim>\<open>#\<close>, a second removal
  returns it unchanged.
\<close>

theorem C7_second_removal_is_noop:
  "title argv = None \<Longrightarrow> removeTitle argv \<Longrightarrow> no_heading_line (rewrite_heading argv text) \<Longrightarrow>
     rewrite_heading argv (rewrite_heading argv text) = rewrite_heading argv text"
  by (simp add: rewrite_heading_def truthy_def replace_heading_none)

theorem C7_second_removal_is_noop_witness:
  "no_heading_line (rewrite_heading example_argv (js ''# Old Title\<newline>body''))
   \<and> rewrite_heading example_argv (rewrite_heading example_argv (js ''# Old Title\<newline>body''))
     = js ''\<newline>body''"
proof -
  have t: "title example_argv = None" "removeTitle example_argv"
    by (simp_all add: example_argv_def)
  have r: "rewrite_heading example_argv (js ''# Old Title\<newline>body'') = js ''\<newline>body''"
    by code_simp
  have "heading_exec (js ''\<newline>body'') = None"
    by code_simp
  then have n: "no_heading_line (js ''\<newline>body'')"
    by (simp add: no_heading_line_iff)
  from C7_second_removal_is_noop [of example_argv "js ''# Old Title\<newline>body''"] t r n
  show ?thesis by simp
qed

text \<open>
  C10 (empty title). A title that is the empty string is falsy, so the rewrite does
  what it does with no title: the removal when \<^verbatim>\<open>removeTitle\<close> is true, nothing
  otherwise.
\<close>

theorem C10_empty_title_is_no_title:
  "rewrite_heading (argv\<lparr>title := Some []\<rparr>) rendered
     = rewrite_heading (argv\<lparr>title := None\<rparr>) rendered
   \<and> rewrite_heading (argv\<lparr>title := Some []\<rparr>) rendered
     = (if removeTitle argv then replace_heading rendered [] else rendered)"
  by (simp add: rewrite_heading_def truthy_def)

theorem C10_empty_title_is_no_title_witness:
  "rewrite_heading (example_argv\<lparr>title := Some []\<rparr>) (js ''# Old Title\<newline>body'') = js ''\<newline>body''
   \<and> rewrite_heading (example_argv\<lparr>title := None\<rparr>) (js ''# Old Title\<newline>body'') = js ''\<newline>body''"
proof -
  have r: "rewrite_heading (example_argv\<lparr>title := None\<rparr>) (js ''# Old Title\<newline>body'') = js ''\<newline>body''"
    by code_simp
  from C10_empty_title_is_no_title [of example_argv "js ''# Old Title\<newline>body''"] r
  show ?thesis by simp
qed

section \<open>The default of \<^verbatim>\<open>--date\<close>\<close>

text \<open>
  C9 (date is a string, defaulting to the current date as text). The option is declared
  with \<^verbatim>\<open>type: 'string'\<close> and \<^verbatim>\<open>ParsedArgs\<close> types \<^verbatim>\<open>date\<close> as a string, and a value
  given on the command line is one. The declared default is \<^verbatim>\<open>moment()\<close>, though: without
  \<^verbatim>\<open>--date\<close>, \<^verbatim>\<open>argv.date\<close> is the Moment object, not a string.
\<close>

theorem C9_default_date_is_moment_object:
  "argv_date now None = Some (VMoment now) \<and> \<not> is_string (VMoment now)
   \<and> argv_date now (Some s) = Some (VString s)"
  by (simp add: argv_date_def option_value_def date_option_def moment_def is_string_def)

section \<open>The command handler\<close>

text \<open>
  The runs of the handler, one lemma for each way it ends, and what decides the exit
  code: \<^verbatim>\<open>Deno.exit(1)\<close> is called exactly when one of the two \<^verbatim>\<open>nb\<close> calls returns a
  non-zero status; the exit code is 1 then and also when an exception leaves the handler
  (a subprocess that cannot be spawned, a rendering error); it is 0 exactly after a
  dry-run print or a note creation that returned status 0.
\<close>

lemma getTemplate_event:
  "getTemplate e t = (ev, r) \<Longrightarrow>
     ev = Command_output (js ''nb'') [js ''show'', js ''--no-color'', js ''--print'', t]"
  by (auto simp: getTemplate_def Let_def)

lemma createNote_event:
  "createNote e f c = (ev, r) \<Longrightarrow>
     ev = Command_output (js ''nb'') [js ''add'', js ''--filename'', f, js ''--content'', c]"
  by (auto simp: createNote_def Let_def)

lemma renderTemplate_event:
  "renderTemplate e t vars = (ev, r) \<Longrightarrow> ev = renderString \<lparr>useWith = True\<rparr> t vars"
  by (auto simp: renderTemplate_def Let_def)

lemma getTemplate_not_createNote: "getTemplate e t = (ev, r) \<Longrightarrow> \<not> is_createNote ev"
  by (auto simp: getTemplate_def Let_def is_createNote_def js_def)

lemma renderTemplate_not_createNote: "renderTemplate e t vars = (ev, r) \<Longrightarrow> \<not> is_createNote ev"
  by (auto simp: renderTemplate_def Let_def is_createNote_def)

lemma createNote_is_createNote: "createNote e f c = (ev, r) \<Longrightarrow> is_createNote ev"
  by (auto simp: createNote_def Let_def is_createNote_def)

lemma handler_read_failure:
  assumes "getTemplate e (template argv) = (ev1, Inr tmpl)" and "code tmpl \<noteq> 0"
  shows "handler e argv =
           \<lparr>events = [ev1, console_error (VUint8Array (stderr tmpl))], outcome = Exit 1\<rparr>"
  using assms by (simp add: handler_def)

lemma handler_read_failure_no_write:
  assumes "getTemplate e (template argv) = (ev1, Inr tmpl)" and "code tmpl \<noteq> 0"
  shows "\<forall>ev\<in>set (events (handler e argv)). \<not> is_createNote ev"
  using handler_read_failure [OF assms] getTemplate_not_createNote [OF assms(1)]
  by (simp add: is_createNote_def)

lemma handler_render_failure:
  assumes "getTemplate e (template argv) = (ev1, Inr tmpl)" and "code tmpl = 0"
    and "renderTemplate e (TextDecoder_decode e (stdout tmpl)) (render_scope argv) = (ev2, Inl err)"
  shows "handler e argv = \<lparr>events = [ev1, ev2], outcome = Threw err\<rparr>"
  using assms by (simp add: handler_def)

lemma handler_write_failure:
  assumes "getTemplate e (template argv) = (ev1, Inr tmpl)" and "code tmpl = 0"
    and "renderTemplate e (TextDecoder_decode e (stdout tmpl)) (render_scope argv) = (ev2, Inr rendered)"
    and "\<not> dry_run argv"
    and "createNote e (note argv) (rewrite_heading argv rendered) = (ev3, Inr nt)"
    and "code nt \<noteq> 0"
  shows "handler e argv =
           \<lparr>events = [ev1, ev2, ev3, console_error (VUint8Array (stderr nt))], outcome = Exit 1\<rparr>"
  using assms by (simp add: handler_def)

lemma handler_success:
  assumes "getTemplate e (template argv) = (ev1, Inr tmpl)" and "code tmpl = 0"
    and "renderTemplate e (TextDecoder_decode e (stdout tmpl)) (render_scope argv) = (ev2, Inr rendered)"
    and "\<not> dry_run argv"
    and "createNote e (note argv) (rewrite_heading argv rendered) = (ev3, Inr nt)"
    and "code nt = 0"
  shows "handler e argv =
           \<lparr>events = [ev1, ev2, ev3, console_log (VString (js ''Note created.''))],
            outcome = Returned\<rparr>"
    and "exit_code (outcome (handler e argv)) = Some 0"
  using assms by (simp_all add: handler_def exit_code_def)

lemma handler_exit_1_iff:
  "outcome (handler e argv) = Exit 1 \<longleftrightarrow>
     (\<exists>tmpl. snd (getTemplate e (template argv)) = Inr tmpl \<and> code tmpl \<noteq> 0)
     \<or> (\<exists>tmpl rendered nt.
          snd (getTemplate e (template argv)) = Inr tmpl \<and> code tmpl = 0
          \<and> snd (renderTemplate e (TextDecoder_decode e (stdout tmpl)) (render_scope argv))
              = Inr rendered
          \<and> \<not> dry_run argv
          \<and> snd (createNote e (note argv) (rewrite_heading argv rendered)) = Inr nt
          \<and> code nt \<noteq> 0)"
  by (auto simp: handler_def Let_def split: prod.splits sum.splits)

lemma handler_exit_0_iff:
  "exit_code (outcome (handler e argv)) = Some 0 \<longleftrightarrow>
     (\<exists>tmpl rendered.
          snd (getTemplate e (template argv)) = Inr tmpl \<and> code tmpl = 0
          \<and> snd (renderTemplate e (TextDecoder_decode e (stdout tmpl)) (render_scope argv))
              = Inr rendered
          \<and> (dry_run argv
              \<or> (\<exists>nt. snd (createNote e (note argv) (rewrite_heading argv rendered)) = Inr nt
                       \<and> code nt = 0)))"
  by (auto simp: handler_def Let_def exit_code_def split: prod.splits sum.splits)

lemma handler_exit_code_1_iff:
  "exit_code (outcome (handler e argv)) = Some 1 \<longleftrightarrow>
     outcome (handler e argv) = Exit 1 \<or> (\<exists>err. outcome (handler e argv) = Threw err)"
  by (cases "outcome (handler e argv)") (simp_all add: exit_code_def)

lemma example_getTemplate:
  "getTemplate example_env (js ''tpl'') =
     (Command_output (js ''nb'') [js ''show'', js ''--no-color'', js ''--print'', js ''tpl''],
      Inr \<lparr>code = 0, stdout = bytes ''# Old Title\<newline>body'', stderr = []\<rparr>)"
  by (simp add: getTemplate_def example_env_def example_nb_def)

lemma example_decode: "ascii_decode (bytes ''# Old Title\<newline>body'') = js ''# Old Title\<newline>body''"
  by (simp add: ascii_decode_def bytes_def js_def)

lemma example_renderTemplate:
  "renderTemplate example_env t vars = (renderString \<lparr>useWith = True\<rparr> t vars, Inr t)"
  by (simp add: renderTemplate_def example_env_def)

text \<open>
  The dry run: when the template is read with status 0, the rendering returns and
  \<^verbatim>\<open>--dry-run\<close> is set, the handler calls \<^verbatim>\<open>nb show\<close>, renders, hands the encoded final
  text to \<^verbatim>\<open>Deno.stdout.write\<close> and exits with code 0; no call of \<^verbatim>\<open>createNote\<close> is
  made. What has reached standard output by then is the part of the text that the one
  write has taken.
\<close>

lemma handler_dry_run:
  assumes "getTemplate e (template argv) = (ev1, Inr tmpl)" and "code tmpl = 0"
    and "renderTemplate e (TextDecoder_decode e (stdout tmpl)) (render_scope argv) = (ev2, Inr rendered)"
    and "dry_run argv"
  shows "handler e argv =
           \<lparr>events = [ev1, ev2, stdout_write (TextEncoder_encode e (rewrite_heading argv rendered))],
            outcome = Exit 0\<rparr>
         \<and> exit_code (outcome (handler e argv)) = Some 0
         \<and> (\<forall>ev\<in>set (events (handler e argv)). \<not> is_createNote ev)"
proof -
  have run: "handler e argv =
           \<lparr>events = [ev1, ev2, stdout_write (TextEncoder_encode e (rewrite_heading argv rendered))],
            outcome = Exit 0\<rparr>"
    using assms by (simp add: handler_def)
  moreover have "\<not> is_createNote ev1"
    using assms(1) by (rule getTemplate_not_createNote)
  moreover have "\<not> is_createNote ev2"
    using assms(3) by (rule renderTemplate_not_createNote)
  ultimately show ?thesis
    by (simp add: exit_code_def is_createNote_def)
qed

lemma handler_dry_run_example:
  "outcome (handler example_env (example_argv\<lparr>dry_run := True\<rparr>)) = Exit 0
   \<and> last (events (handler example_env (example_argv\<lparr>dry_run := True\<rparr>)))
       = stdout_write (bytes ''\<newline>body'')
   \<and> filter is_createNote (events (handler example_env (example_argv\<lparr>dry_run := True\<rparr>))) = []"
proof -
  let ?argv = "example_argv\<lparr>dry_run := True\<rparr>"
  have a: "getTemplate example_env (template ?argv) =
     (Command_output (js ''nb'') [js ''show'', js ''--no-color'', js ''--print'', js ''tpl''],
      Inr \<lparr>code = 0, stdout = bytes ''# Old Title\<newline>body'', stderr = []\<rparr>)"
    using example_getTemplate by (simp add: example_argv_def)
  have b: "code \<lparr>code = 0, stdout = bytes ''# Old Title\<newline>body'', stderr = []\<rparr> = 0" by simp
  have c: "renderTemplate example_env
             (TextDecoder_decode example_env (stdout \<lparr>code = 0, stdout = bytes ''# Old Title\<newline>body'', stderr = []\<rparr>))
             (render_scope ?argv)
           = (renderString \<lparr>useWith = True\<rparr> (js ''# Old Title\<newline>body'') (render_scope ?argv),
              Inr (js ''# Old Title\<newline>body''))"
    using example_renderTemplate example_decode by (simp add: example_env_def)
  have d: "dry_run ?argv" by simp
  have r: "rewrite_heading ?argv (js ''# Old Title\<newline>body'') = js ''\<newline>body''"
    by code_simp
  have enc: "TextEncoder_encode example_env (js ''\<newline>body'') = bytes ''\<newline>body''"
    by (simp add: example_env_def ascii_encode_def bytes_def js_def)
  from handler_dry_run [OF a b c d] r enc show ?thesis by (simp add: filter_empty_conv)
qed

lemma handler_dry_run_received:
  assumes "getTemplate e (template argv) = (ev1, Inr tmpl)" and "code tmpl = 0"
    and "renderTemplate e (TextDecoder_decode e (stdout tmpl)) (render_scope argv) = (ev2, Inr rendered)"
    and "dry_run argv"
  shows "stdout_received e (handler e argv) =
           take (Deno_stdout_write e (TextEncoder_encode e (rewrite_heading argv rendered)))
             (TextEncoder_encode e (rewrite_heading argv rendered))"
proof -
  have "written_by e ev1 = []"
    using getTemplate_event [OF assms(1)] by (simp add: written_by_def)
  moreover have "written_by e ev2 = []"
    using renderTemplate_event [OF assms(3)] by (simp add: written_by_def)
  ultimately show ?thesis
    using handler_dry_run [OF assms] by (simp add: stdout_received_def written_by_def)
qed

lemma slow_stdout_getTemplate:
  "getTemplate slow_stdout_env (js ''tpl'') =
     (Command_output (js ''nb'') [js ''show'', js ''--no-color'', js ''--print'', js ''tpl''],
      Inr \<lparr>code = 0, stdout = bytes ''# Old Title\<newline>body'', stderr = []\<rparr>)"
  by (simp add: getTemplate_def slow_stdout_env_def example_env_def example_nb_def)

text \<open>
  C1 (dry run). The claim: with \<^verbatim>\<open>--dry-run\<close> the program writes the final text to
  standard output, exits with code 0 and never calls \<^verbatim>\<open>createNote\<close>. The exit code and
  the absence of the write call hold (\<open>handler_dry_run\<close>). The text is handed to
  \<^verbatim>\<open>Deno.stdout.write\<close> once, the promise is dropped and \<^verbatim>\<open>Deno.exit(0)\<close> follows
  (lines 128-129; the two \<^verbatim>\<open>nb\<close> calls are awaited), so the process ends with whatever
  part of the text the one write has taken: on a standard output that has taken two
  bytes, two of the five bytes of the final text arrive.
\<close>

theorem C1_dry_run_write_not_awaited:
  "outcome (handler slow_stdout_env (example_argv\<lparr>dry_run := True\<rparr>)) = Exit 0
   \<and> last (events (handler slow_stdout_env (example_argv\<lparr>dry_run := True\<rparr>)))
       = stdout_write (bytes ''\<newline>body'')
   \<and> stdout_received slow_stdout_env (handler slow_stdout_env (example_argv\<lparr>dry_run := True\<rparr>))
       = bytes ''\<newline>b''
   \<and> bytes ''\<newline>b'' \<noteq> bytes ''\<newline>body''"
proof -
  let ?argv = "example_argv\<lparr>dry_run := True\<rparr>"
  let ?out = "\<lparr>code = 0, stdout = bytes ''# Old Title\<newline>body'', stderr = []\<rparr>"
  have a: "getTemplate slow_stdout_env (template ?argv) =
     (Command_output (js ''nb'') [js ''show'', js ''--no-color'', js ''--print'', js ''tpl''], Inr ?out)"
    using slow_stdout_getTemplate by (simp add: example_argv_def)
  have b: "code ?out = 0" by simp
  have c: "renderTemplate slow_stdout_env (TextDecoder_decode slow_stdout_env (stdout ?out))
             (render_scope ?argv)
           = (renderString \<lparr>useWith = True\<rparr> (js ''# Old Title\<newline>body'') (render_scope ?argv),
              Inr (js ''# Old Title\<newline>body''))"
    using example_decode
    by (simp add: renderTemplate_def slow_stdout_env_def example_env_def)
  have d: "dry_run ?argv" by simp
  have r: "rewrite_heading ?argv (js ''# Old Title\<newline>body'') = js ''\<newline>body''"
    by code_simp
  have enc: "TextEncoder_encode slow_stdout_env (js ''\<newline>body'') = bytes ''\<newline>body''"
    by (simp add: slow_stdout_env_def example_env_def ascii_encode_def bytes_def js_def)
  have n: "Deno_stdout_write slow_stdout_env (bytes ''\<newline>body'') = 2"
    by (simp add: slow_stdout_env_def)
  have t: "take 2 (bytes ''\<newline>body'') = bytes ''\<newline>b''"
          "bytes ''\<newline>b'' \<noteq> bytes ''\<newline>body''"
    by (simp_all add: bytes_def)
  from handler_dry_run [OF a b c d] handler_dry_run_received [OF a b c d] r enc n t
  show ?thesis by simp
qed

text \<open>
  C2 (read failure). The claim: when \<^verbatim>\<open>getTemplate\<close> returns a non-zero status, the
  diagnostic text goes to the error stream verbatim, the exit code is 1 and
  \<^verbatim>\<open>createNote\<close> is never called. The exit code and the absence of the write call hold
  (\<open>handler_read_failure\<close>, \<open>handler_read_failure_no_write\<close>). What \<^verbatim>\<open>console.error\<close> is given is \<^verbatim>\<open>template.stderr\<close>, the
  byte array, not its decoded text (line 113 decodes \<^verbatim>\<open>template.stdout\<close> with a
  \<^verbatim>\<open>TextDecoder\<close>; line 108 does not), so what is printed is the listing of a
  \<^verbatim>\<open>Uint8Array\<close>.
\<close>

theorem C2_read_failure_prints_byte_array:
  "handler example_env (example_argv\<lparr>template := js ''missing''\<rparr>) =
     \<lparr>events = [Command_output (js ''nb'') [js ''show'', js ''--no-color'', js ''--print'', js ''missing''],
                console_error (VUint8Array (bytes ''Not found''))],
      outcome = Exit 1\<rparr>
   \<and> VUint8Array (bytes ''Not found'') \<noteq> VString (ascii_decode (bytes ''Not found''))"
  by (simp add: handler_def getTemplate_def example_env_def example_argv_def example_nb_def js_def)

text \<open>
  C5 (exit codes). The exit code is 0 exactly as claimed (\<open>handler_exit_0_iff\<close>), on
  success \<^verbatim>\<open>Note created.\<close> is printed before the handler returns (\<open>handler_success\<close>),
  and the script calls \<^verbatim>\<open>Deno.exit(1)\<close> exactly when the template fetch or the note
  creation returns a non-zero status (\<open>handler_exit_1_iff\<close>). On a write failure
  \<^verbatim>\<open>console.error\<close> is given \<^verbatim>\<open>note.stderr\<close>, the byte array, as on a read failure: the
  diagnostic text is not what is written. (The exit code is 1 also when an exception
  leaves the handler, \<open>handler_exit_code_1_iff\<close>: a rendering error is a third way to
  exit code 1.)
\<close>

theorem C5_write_failure_prints_byte_array:
  "outcome (handler example_env (example_argv\<lparr>note := js ''taken.md''\<rparr>)) = Exit 1
   \<and> last (events (handler example_env (example_argv\<lparr>note := js ''taken.md''\<rparr>)))
       = console_error (VUint8Array (bytes ''Rejected''))
   \<and> VUint8Array (bytes ''Rejected'') \<noteq> VString (ascii_decode (bytes ''Rejected''))"
  by (simp add: handler_def getTemplate_def createNote_def renderTemplate_def
        example_env_def example_argv_def example_nb_def js_def)

section \<open>The render scope\<close>

lemma render_scope_moment: "render_scope argv ''moment'' = Some (VFunction ''moment'')"
  by (simp add: render_scope_def)

lemma render_scope_other: "k \<noteq> ''moment'' \<Longrightarrow> render_scope argv k = argv_object argv k"
  by (simp add: render_scope_def)

lemma argv_object_extra:
  "k \<notin> set declared_names \<Longrightarrow> argv_object argv k = extra argv k"
  by (auto simp: argv_object_def declared_names_def map_add_def split: option.splits)

lemma argv_object_declared:
  "argv_object argv ''template'' = Some (VString (template argv))"
  "argv_object argv ''note'' = Some (VString (note argv))"
  "argv_object argv ''date'' = Some (date argv)"
  "argv_object argv ''removeTitle'' = Some (VBoolean (removeTitle argv))"
  "argv_object argv ''dry-run'' = Some (VBoolean (dry_run argv))"
  "title argv = Some t \<Longrightarrow> argv_object argv ''title'' = Some (VString t)"
  by (auto simp: argv_object_def map_add_def split: option.splits)

lemma handler_render_events:
  "renderString cfg t vars \<in> set (events (handler e argv)) \<Longrightarrow>
     cfg = \<lparr>useWith = True\<rparr> \<and> vars = render_scope argv"
  by (auto simp: handler_def getTemplate_def renderTemplate_def createNote_def Let_def
           split: prod.splits sum.splits if_splits)

text \<open>
  C6 (render scope). Every call of the renderer that the handler makes is given the
  object \<^verbatim>\<open>{...argv, moment}\<close>: under the reserved name \<^verbatim>\<open>moment\<close> the date-formatting
  function, and under every other name what \<^verbatim>\<open>argv\<close> has there, so every name that
  \<^verbatim>\<open>argv\<close> binds resolves in the scope: the declared parameters and every extra
  \<^verbatim>\<open>--name value\<close> pair.
\<close>

theorem C6_render_scope:
  assumes "renderString cfg tmpl vars \<in> set (events (handler e argv))"
  shows "vars = (argv_object argv)(''moment'' \<mapsto> VFunction ''moment'')
         \<and> vars ''moment'' = Some (VFunction ''moment'')
         \<and> (\<forall>k. k \<noteq> ''moment'' \<longrightarrow> vars k = argv_object argv k)
         \<and> dom (argv_object argv) \<subseteq> dom vars
         \<and> (\<forall>k. k \<notin> set declared_names \<and> k \<noteq> ''moment'' \<longrightarrow> vars k = extra argv k)
         \<and> vars ''template'' = Some (VString (template argv))
         \<and> vars ''note'' = Some (VString (note argv))
         \<and> vars ''date'' = Some (date argv)"
proof -
  from assms have v: "vars = render_scope argv"
    using handler_render_events by blast
  have "dom (argv_object argv) \<subseteq> dom (render_scope argv)"
    by (auto simp: render_scope_def)
  moreover have "\<forall>k. k \<notin> set declared_names \<and> k \<noteq> ''moment'' \<longrightarrow> render_scope argv k = extra argv k"
    by (simp add: render_scope_other argv_object_extra)
  ultimately show ?thesis
    unfolding v
    by (simp add: render_scope_moment render_scope_other argv_object_declared)
       (simp add: render_scope_def)
qed

theorem C6_render_scope_witness:
  "renderString \<lparr>useWith = True\<rparr> (js ''# Old Title\<newline>body'') (render_scope example_argv)
     \<in> set (events (handler example_env example_argv))
   \<and> render_scope example_argv ''moment'' = Some (VFunction ''moment'')
   \<and> render_scope example_argv ''who'' = Some (VString (js ''world''))
   \<and> render_scope example_argv ''date'' = Some (VString (js ''2024-01-01''))"
proof -
  have t: "template example_argv = js ''tpl''" by (simp add: example_argv_def)
  have ev: "renderString \<lparr>useWith = True\<rparr> (js ''# Old Title\<newline>body'') (render_scope example_argv)
     \<in> set (events (handler example_env example_argv))"
    using example_getTemplate example_decode
    by (simp add: handler_def t example_renderTemplate Let_def split: prod.splits sum.splits)
       (simp add: example_env_def)
  have w: "''who'' \<notin> set declared_names \<and> ''who'' \<noteq> ''moment''"
    by (simp add: declared_names_def)
  have x: "extra example_argv ''who'' = Some (VString (js ''world''))"
          "date example_argv = VString (js ''2024-01-01'')"
    by (simp_all add: example_argv_def)
  note c6 = C6_render_scope [OF ev]
  have m: "render_scope example_argv ''moment'' = Some (VFunction ''moment'')"
    using c6 by blast
  have who: "render_scope example_argv ''who'' = extra example_argv ''who''"
    using c6 w by blast
  have d: "render_scope example_argv ''date'' = Some (date example_argv)"
    using c6 by blast
  show ?thesis using ev m who d x by simp
qed

section \<open>Rendering errors\<close>

lemma render_tokens_error:
  "render_tokens True str vars ts = Inl err \<Longrightarrow> \<exists>y. err = ReferenceError y \<and> vars y = None"
proof (induction ts arbitrary: err)
  case Nil
  then show ?case by simp
next
  case (Cons t ts)
  then show ?case
    by (cases t) (auto simp: eval_expr_def split: sum.splits option.splits eta_expr.splits)
qed

lemma render_tokens_unbound:
  "Output (Var x) \<in> set ts \<Longrightarrow> vars x = None \<Longrightarrow> \<exists>err. render_tokens True str vars ts = Inl err"
proof (induction ts)
  case Nil
  then show ?case by simp
next
  case (Cons t ts)
  then show ?case
    by (cases t) (auto simp: eval_expr_def split: sum.splits option.splits eta_expr.splits)
qed

lemma example_spec_env_getTemplate:
  "getTemplate (example_env\<lparr>Eta_renderString := spec_renderString example_tokens example_str\<rparr>) (js ''tpl'') =
     (Command_output (js ''nb'') [js ''show'', js ''--no-color'', js ''--print'', js ''tpl''],
      Inr \<lparr>code = 0, stdout = bytes ''# Old Title\<newline>body'', stderr = []\<rparr>)"
  by (simp add: getTemplate_def example_env_def example_nb_def)

text \<open>
  C8 (undefined variable). With the renderer of the specification: when the template
  has an output tag for a variable that the render scope does not bind, the rendering
  fails with a reference error (to that variable or to an earlier unbound one), and the
  handler ends with that error right after the render call: no heading rewrite, no
  print, no call of \<^verbatim>\<open>createNote\<close>.
\<close>

theorem C8_unbound_variable_aborts:
  assumes "Eta_renderString e = spec_renderString tokens str"
    and "getTemplate e (template argv) = (ev1, Inr tmpl)" and "code tmpl = 0"
    and "Output (Var x) \<in> set (tokens (TextDecoder_decode e (stdout tmpl)))"
    and "render_scope argv x = None"
  shows "\<exists>y. render_scope argv y = None
            \<and> handler e argv =
                \<lparr>events = [ev1, renderString \<lparr>useWith = True\<rparr> (TextDecoder_decode e (stdout tmpl))
                                   (render_scope argv)],
                 outcome = Threw (ReferenceError y)\<rparr>"
proof -
  let ?t = "TextDecoder_decode e (stdout tmpl)"
  from assms(4,5) obtain err where
    err: "render_tokens True str (render_scope argv) (tokens ?t) = Inl err"
    using render_tokens_unbound by blast
  then obtain y where y: "err = ReferenceError y" "render_scope argv y = None"
    using render_tokens_error by blast
  have "renderTemplate e ?t (render_scope argv)
          = (renderString \<lparr>useWith = True\<rparr> ?t (render_scope argv), Inl (ReferenceError y))"
    using assms(1) err y by (simp add: renderTemplate_def spec_renderString_def)
  with assms(2,3) have "handler e argv =
                \<lparr>events = [ev1, renderString \<lparr>useWith = True\<rparr> ?t (render_scope argv)],
                 outcome = Threw (ReferenceError y)\<rparr>"
    by (rule handler_render_failure)
  with y show ?thesis by blast
qed

theorem C8_unbound_variable_aborts_witness:
  "render_scope example_argv ''name'' = None
   \<and> outcome (handler (example_env\<lparr>Eta_renderString := spec_renderString example_tokens example_str\<rparr>)
        example_argv) = Threw (ReferenceError ''name'')
   \<and> length (events (handler (example_env\<lparr>Eta_renderString := spec_renderString example_tokens example_str\<rparr>)
        example_argv)) = 2"
proof -
  let ?e = "example_env\<lparr>Eta_renderString := spec_renderString example_tokens example_str\<rparr>"
  let ?out = "\<lparr>code = 0, stdout = bytes ''# Old Title\<newline>body'', stderr = []\<rparr>"
  have a: "Eta_renderString ?e = spec_renderString example_tokens example_str" by simp
  have b: "getTemplate ?e (template example_argv) =
     (Command_output (js ''nb'') [js ''show'', js ''--no-color'', js ''--print'', js ''tpl''], Inr ?out)"
    using example_spec_env_getTemplate by (simp add: example_argv_def)
  have c: "code ?out = 0" by simp
  have d: "Output (Var ''name'') \<in> set (example_tokens (TextDecoder_decode ?e (stdout ?out)))"
    by (simp add: example_tokens_def)
  have n: "render_scope example_argv ''name'' = None"
    by (simp add: render_scope_def argv_object_def example_argv_def map_add_def)
  from C8_unbound_variable_aborts [OF a b c d n] n
  obtain y where y: "handler ?e example_argv =
       \<lparr>events = [Command_output (js ''nb'') [js ''show'', js ''--no-color'', js ''--print'', js ''tpl''],
                  renderString \<lparr>useWith = True\<rparr> (TextDecoder_decode ?e (stdout ?out))
                    (render_scope example_argv)],
        outcome = Threw (ReferenceError y)\<rparr>"
    by blast
  have "outcome (handler ?e example_argv) = Threw (ReferenceError ''name'')"
    using b by (simp add: handler_def renderTemplate_def spec_renderString_def example_tokens_def
          eval_expr_def n)
  with y n show ?thesis by simp
qed

end
